theory Spec2Isabelle
  imports Complex_Main
begin

section \<open>Python values\<close>

text \<open>
  Exceptions of the source are values: every function that can raise returns
  \<open>py_error + 'a\<close>, with \<open>Inl\<close> the exception.
\<close>

datatype py_error =
    PyException string
  | AttributeError
  | TypeError
  | ZeroDivisionError
  | OverflowError
  | InvalidOperation
  | PlatformError string

text \<open>
  A decimal.Decimal is a signed coefficient and an exponent, worth
  \<open>coefficient * 10 ^ exponent\<close>. NaN, the infinities and the sign of a zero are
  left out, and so are the exponent limits of the context (Emin, Emax).
\<close>

datatype dec = Dec int int

text \<open>What a platform hands back as a price: None, an int or a Decimal.\<close>

datatype pyval = PyNone | PyInt int | PyDec dec

section \<open>Choices\<close>

definition WALLEX :: string where "WALLEX = ''wallex''"
definition BITPIN :: string where "BITPIN = ''bitpin''"
definition TOMAN :: string where "TOMAN = ''irt''"
definition TETHER :: string where "TETHER = ''usdt''"
definition BUY :: string where "BUY = ''buy''"
definition SELL :: string where "SELL = ''sell''"

section \<open>Exchange and Coin\<close>

record Exchange =
  name :: string

record Coin =
  title :: "string option"
  code :: string
  enable :: bool
  coin_market :: "string option"

datatype platform = Wallex | Bitpin

text \<open>
  The two platform classes (platforms/wallex.py, platforms/bitpin.py) are not part of
  the sources at hand; what their methods return is a parameter of the model.
\<close>

record platforms =
  platform_get_price :: "platform \<Rightarrow> Coin \<Rightarrow> string option \<Rightarrow> py_error + pyval"
  platform_cache_all_prices :: "platform \<Rightarrow> py_error + pyval"

definition get_platform :: "Exchange \<Rightarrow> py_error + platform" where
  "get_platform self =
     (if name self = WALLEX then Inr Wallex
      else if name self = BITPIN then Inr Bitpin
      else Inl (PyException ''Exchange name is not valid''))"

definition Exchange_price ::
  "platforms \<Rightarrow> Exchange \<Rightarrow> Coin \<Rightarrow> string option \<Rightarrow> py_error + pyval" where
  "Exchange_price ps self c m =
     (case get_platform self of
        Inl e \<Rightarrow> Inl e
      | Inr p \<Rightarrow> platform_get_price ps p c m)"

definition Exchange_cache_all_prices :: "platforms \<Rightarrow> Exchange \<Rightarrow> py_error + pyval" where
  "Exchange_cache_all_prices ps self =
     (case get_platform self of
        Inl e \<Rightarrow> Inl e
      | Inr p \<Rightarrow> platform_cache_all_prices ps p)"

definition Coin_price ::
  "platforms \<Rightarrow> Exchange list \<Rightarrow> Coin \<Rightarrow> string option \<Rightarrow> py_error + pyval" where
  \<comment> \<open>\<open>objects\<close> is Exchange.objects in the order of the queryset; last() of an empty
      queryset is None, and None has no attribute price.\<close>
  "Coin_price ps objects self m =
     (case objects of
        [] \<Rightarrow> Inl AttributeError
      | _ \<Rightarrow> Exchange_price ps (last objects) self m)"

section \<open>Decimal arithmetic of the default context\<close>

text \<open>
  The default context has 28 digits of precision and rounds half to even. A product is
  computed exactly and then rounded to the precision (decimal.py: __mul__ and _fix).
\<close>

fun digits_count :: "nat \<Rightarrow> nat" where
  "digits_count n = (if n < 10 then 1 else Suc (digits_count (n div 10)))"

declare digits_count.simps [simp del]

definition round_half_even :: "nat \<Rightarrow> nat \<Rightarrow> nat" where
  \<comment> \<open>\<open>n / d\<close> rounded to the nearest integer, a tie going to the even one\<close>
  "round_half_even n d =
     (let q = n div d; r = n mod d
      in if 2 * r < d then q
         else if d < 2 * r then q + 1
         else if even q then q else q + 1)"

definition prec :: nat where "prec = 28"

fun dec_fix :: "dec \<Rightarrow> dec" where
  "dec_fix (Dec c e) =
     (let n = digits_count (nat \<bar>c\<bar>)
      in if n \<le> prec then Dec c e
         else let k = n - prec; m = round_half_even (nat \<bar>c\<bar>) (10 ^ k)
              in if prec < digits_count m
                 then Dec (sgn c * int (m div 10)) (e + int k + 1)
                 else Dec (sgn c * int m) (e + int k))"

fun dec_mul :: "dec \<Rightarrow> dec \<Rightarrow> dec" where
  "dec_mul (Dec c1 e1) (Dec c2 e2) = dec_fix (Dec (c1 * c2) (e1 + e2))"

fun dec_int :: "dec \<Rightarrow> int" where
  \<comment> \<open>int(Decimal): truncation toward zero\<close>
  "dec_int (Dec c e) =
     (if 0 \<le> e then c * 10 ^ nat e
      else sgn c * (\<bar>c\<bar> div 10 ^ nat (- e)))"

fun dec_rescale :: "dec \<Rightarrow> int \<Rightarrow> dec" where
  \<comment> \<open>the same value at exponent \<open>ex\<close>: padded with zeros, or rounded half to even\<close>
  "dec_rescale (Dec c e) ex =
     (if ex \<le> e then Dec (c * 10 ^ nat (e - ex)) ex
      else Dec (sgn c * int (round_half_even (nat \<bar>c\<bar>) (10 ^ nat (ex - e)))) ex)"

fun dec_coeff :: "dec \<Rightarrow> int" where
  "dec_coeff (Dec c e) = c"

definition dec_round :: "dec \<Rightarrow> nat \<Rightarrow> py_error + dec" where
  \<comment> \<open>round(Decimal, n) is quantize at exponent \<open>-n\<close>, which refuses a result of more
      digits than the precision\<close>
  "dec_round d n =
     (let r = dec_rescale d (- int n)
      in if prec < digits_count (nat \<bar>dec_coeff r\<bar>) then Inl InvalidOperation else Inr r)"

fun truthy :: "pyval \<Rightarrow> bool" where
  "truthy PyNone = False"
| "truthy (PyInt n) = (n \<noteq> 0)"
| "truthy (PyDec d) = (dec_coeff d \<noteq> 0)"

fun py_mul_dec :: "pyval \<Rightarrow> dec \<Rightarrow> py_error + dec" where
  \<comment> \<open>\<open>x * d\<close> for a Decimal \<open>d\<close>: an int is converted exactly first\<close>
  "py_mul_dec PyNone d = Inl TypeError"
| "py_mul_dec (PyInt n) d = Inr (dec_mul (Dec n 0) d)"
| "py_mul_dec (PyDec x) d = Inr (dec_mul x d)"

fun py_int :: "pyval \<Rightarrow> py_error + int" where
  "py_int PyNone = Inl TypeError"
| "py_int (PyInt n) = Inr n"
| "py_int (PyDec d) = Inr (dec_int d)"

fun py_round :: "pyval \<Rightarrow> nat \<Rightarrow> py_error + pyval" where
  \<comment> \<open>round(x, n) for \<open>n \<ge> 0\<close>: an int is its own rounding\<close>
  "py_round PyNone n = Inl TypeError"
| "py_round (PyInt i) n = Inr (PyInt i)"
| "py_round (PyDec d) n = (case dec_round d n of Inl e \<Rightarrow> Inl e | Inr r \<Rightarrow> Inr (PyDec r))"

section \<open>Strings\<close>

text \<open>Strings are ASCII. \<open>format_int_comma n\<close> is \<open>f"{n:,}"\<close> for an int.\<close>

definition digit_char :: "nat \<Rightarrow> char" where
  "digit_char n = ''0123456789'' ! n"

fun str_nat :: "nat \<Rightarrow> string" where
  "str_nat n =
     (if n < 10 then [digit_char n]
      else str_nat (n div 10) @ [digit_char (n mod 10)])"

declare str_nat.simps [simp del]

fun group3 :: "string \<Rightarrow> string" where
  \<comment> \<open>on the digits from the right: a comma after every third digit that has a successor\<close>
  "group3 (a # b # c # d # r) = a # b # c # CHR '','' # group3 (d # r)"
| "group3 r = r"

definition format_int_comma :: "int \<Rightarrow> string" where
  "format_int_comma n =
     (if n < 0 then ''-'' else []) @ rev (group3 (rev (str_nat (nat \<bar>n\<bar>))))"

definition lower_char :: "char \<Rightarrow> char" where
  "lower_char c =
     (case map_of (zip ''ABCDEFGHIJKLMNOPQRSTUVWXYZ'' ''abcdefghijklmnopqrstuvwxyz'') c of
        None \<Rightarrow> c
      | Some l \<Rightarrow> l)"

definition lower :: "string \<Rightarrow> string" where
  "lower s = map lower_char s"

fun join :: "string \<Rightarrow> string option list \<Rightarrow> py_error + string" where
  \<comment> \<open>\<open>sep.join(items)\<close>: an item that is None, not a str, is a TypeError\<close>
  "join sep [] = Inr []"
| "join sep (None # xs) = Inl TypeError"
| "join sep [Some x] = (Inr x)"
| "join sep (Some x # xs) = (case join sep xs of Inl e \<Rightarrow> Inl e | Inr r \<Rightarrow> Inr (x @ sep @ r))"

section \<open>Floats and library calls\<close>

text \<open>
  Binary floating point is not interpreted. A float is a value of a type \<open>'f\<close>, and the
  operations the source applies to floats, with str() of a jalali datetime, are the
  fields of a record that every function working with floats receives. What is made
  explicit is when a conversion or a division raises: float(n) of an int raises
  OverflowError when n, rounded to 53 bits, does not fit a double, that is from
  \<open>2 ^ 1024 - 2 ^ 970\<close> on; \<open>a / b\<close> of two ints raises ZeroDivisionError for \<open>b = 0\<close>, and
  OverflowError when the quotient is that large. float() of a finite Decimal, a product
  of floats and round() of a float to 2 places do not raise (they may give inf).
\<close>

definition double_overflow :: int where
  \<comment> \<open>the least magnitude that no longer rounds to a finite double\<close>
  "double_overflow = 2 ^ 1024 - 2 ^ 970"

record jdatetime =
  jyear :: nat
  jmonth :: nat
  jday :: nat
  jhour :: nat
  jminute :: nat
  jsecond :: nat

record 'f pylib =
  float_of_int :: "int \<Rightarrow> 'f"
  float_of_dec :: "dec \<Rightarrow> 'f"
  int_truediv :: "int \<Rightarrow> int \<Rightarrow> 'f"
  float_mul_int :: "'f \<Rightarrow> int \<Rightarrow> 'f"
  float_round :: "'f \<Rightarrow> nat \<Rightarrow> 'f"
  float_str :: "'f \<Rightarrow> string"
  float_format_comma :: "'f \<Rightarrow> string"
  jdate_str :: "jdatetime \<Rightarrow> string"

fun py_float :: "'f pylib \<Rightarrow> pyval \<Rightarrow> py_error + 'f" where
  "py_float lib PyNone = Inl TypeError"
| "py_float lib (PyInt n) =
     (if double_overflow \<le> \<bar>n\<bar> then Inl OverflowError else Inr (float_of_int lib n))"
| "py_float lib (PyDec d) = Inr (float_of_dec lib d)"

definition py_truediv :: "'f pylib \<Rightarrow> int \<Rightarrow> int \<Rightarrow> py_error + 'f" where
  "py_truediv lib a b =
     (if b = 0 then Inl ZeroDivisionError
      else if double_overflow * \<bar>b\<bar> \<le> \<bar>a\<bar> then Inl OverflowError
      else Inr (int_truediv lib a b))"

definition Coin_get_price ::
  "'f pylib \<Rightarrow> platforms \<Rightarrow> Exchange list \<Rightarrow> Coin \<Rightarrow> string option \<Rightarrow> py_error + string" where
  "Coin_get_price lib ps objects self m =
     (case Coin_price ps objects self m of
        Inl e \<Rightarrow> Inl e
      | Inr v \<Rightarrow>
          (case py_float lib v of
             Inl e \<Rightarrow> Inl e
           | Inr f \<Rightarrow> Inr (float_format_comma lib f)))"

section \<open>Transaction\<close>

text \<open>
  A cached_property is computed at its first access; the functions below are that
  first computation.
\<close>

record Transaction =
  type :: string
  jdate :: "jdatetime option"
  price :: dec
  quantity :: dec
  market :: "string option"
  coin :: Coin
  profile :: nat
  change :: "dec option"
  platform_id :: "string option"

fun fits_field :: "nat \<Rightarrow> nat \<Rightarrow> dec \<Rightarrow> bool" where
  \<comment> \<open>DecimalField(max_digits=md, decimal_places=dp): at most \<open>dp\<close> decimal places and,
      written with \<open>dp\<close> places, at most \<open>md\<close> digits\<close>
  "fits_field md dp (Dec c e) = (- int dp \<le> e \<and> \<bar>c\<bar> * 10 ^ nat (e + int dp) < 10 ^ md)"

datatype 'f display = DStr string | DInt int | DFloat 'f

definition total_price :: "Transaction \<Rightarrow> int" where
  "total_price self = dec_int (dec_mul (price self) (quantity self))"

definition current_price ::
  "platforms \<Rightarrow> Exchange list \<Rightarrow> Transaction \<Rightarrow> py_error + pyval" where
  "current_price ps objects self =
     (case Coin_price ps objects (coin self) (market self) of
        Inl e \<Rightarrow> Inl e
      | Inr v \<Rightarrow> Inr (if truthy v then v else PyInt 0))"

definition get_current_value ::
  "platforms \<Rightarrow> Exchange list \<Rightarrow> Transaction \<Rightarrow> py_error + int" where
  "get_current_value ps objects self =
     (case current_price ps objects self of
        Inl e \<Rightarrow> Inl e
      | Inr v \<Rightarrow>
          (case py_mul_dec v (quantity self) of
             Inl e \<Rightarrow> Inl e
           | Inr d \<Rightarrow> Inr (dec_int d)))"

definition get_price :: "'f pylib \<Rightarrow> Transaction \<Rightarrow> py_error + 'f display" where
  "get_price lib self =
     (if market self = Some TOMAN
      then Inr (DStr (format_int_comma (dec_int (price self))))
      else (case dec_round (price self) 2 of
              Inl e \<Rightarrow> Inl e
            | Inr r \<Rightarrow> Inr (DFloat (float_of_dec lib r))))"

definition get_current_price ::
  "'f pylib \<Rightarrow> platforms \<Rightarrow> Exchange list \<Rightarrow> Transaction \<Rightarrow> py_error + 'f display" where
  "get_current_price lib ps objects self =
     (if market self = Some TOMAN
      then (case current_price ps objects self of
              Inl e \<Rightarrow> Inl e
            | Inr v \<Rightarrow>
                (case py_int v of
                   Inl e \<Rightarrow> Inl e
                 | Inr n \<Rightarrow> Inr (DStr (format_int_comma n))))
      else (case current_price ps objects self of
              Inl e \<Rightarrow> Inl e
            | Inr v \<Rightarrow>
                (case py_round v 2 of
                   Inl e \<Rightarrow> Inl e
                 | Inr r \<Rightarrow>
                     (case py_float lib r of
                        Inl e \<Rightarrow> Inl e
                      | Inr f \<Rightarrow> Inr (DFloat f)))))"

definition get_quantity :: "'f pylib \<Rightarrow> Transaction \<Rightarrow> py_error + 'f" where
  "get_quantity lib self =
     (case dec_round (quantity self) 6 of
        Inl e \<Rightarrow> Inl e
      | Inr r \<Rightarrow> Inr (float_of_dec lib r))"

definition get_profit_or_loss ::
  "platforms \<Rightarrow> Exchange list \<Rightarrow> Transaction \<Rightarrow> py_error + string" where
  "get_profit_or_loss ps objects self =
     (if type self = SELL then Inr ''-''
      else (case get_current_value ps objects self of
              Inl e \<Rightarrow> Inl e
            | Inr cv \<Rightarrow> Inr (format_int_comma (cv - total_price self))))"

definition get_total_price :: "Transaction \<Rightarrow> string" where
  "get_total_price self = format_int_comma (total_price self)"

definition get_current_value_admin ::
  "platforms \<Rightarrow> Exchange list \<Rightarrow> Transaction \<Rightarrow> py_error + string" where
  "get_current_value_admin ps objects self =
     (case get_current_value ps objects self of
        Inl e \<Rightarrow> Inl e
      | Inr cv \<Rightarrow> Inr (format_int_comma cv))"

definition platform_id_components :: "'f pylib \<Rightarrow> Transaction \<Rightarrow> string option list" where
  \<comment> \<open>str(None) is "None"; the market is the one component that may itself be None\<close>
  "platform_id_components lib self =
     [Some (case jdate self of None \<Rightarrow> ''None'' | Some d \<Rightarrow> jdate_str lib d),
      Some (code (coin self)),
      market self,
      Some (type self),
      Some (float_str lib (float_of_dec lib (quantity self))),
      Some (float_str lib (float_of_dec lib (price self)))]"

definition construct_platform_id :: "'f pylib \<Rightarrow> Transaction \<Rightarrow> py_error + string" where
  "construct_platform_id lib self =
     (case join ''|'' (platform_id_components lib self) of
        Inl e \<Rightarrow> Inl e
      | Inr s \<Rightarrow> Inr (lower s))"

definition is_buy_transaction :: "Transaction \<Rightarrow> bool" where
  "is_buy_transaction self = (type self = BUY)"

definition is_sell_transaction :: "Transaction \<Rightarrow> bool" where
  "is_sell_transaction self = (type self = SELL)"

definition is_toman_market :: "Transaction \<Rightarrow> bool" where
  "is_toman_market self = (market self = Some TOMAN)"

definition is_usdt_market :: "Transaction \<Rightarrow> bool" where
  "is_usdt_market self = (market self = Some TETHER)"

definition get_change_percentage ::
  "'f pylib \<Rightarrow> platforms \<Rightarrow> Exchange list \<Rightarrow> Transaction \<Rightarrow> py_error + 'f display" where
  "get_change_percentage lib ps objects self =
     (if type self = SELL then Inr (DStr ''-'')
      else if total_price self = 0 then Inr (DInt 0)
      else (case get_current_value ps objects self of
              Inl e \<Rightarrow> Inl e
            | Inr cv \<Rightarrow>
                (case py_truediv lib (cv - total_price self) (total_price self) of
                   Inl e \<Rightarrow> Inl e
                 | Inr q \<Rightarrow> Inr (DFloat (float_round lib (float_mul_int lib q 100) 2)))))"

section \<open>Importer and the database transaction\<close>

text \<open>
  Importer.save uses transaction.atomic and transaction.on_commit of the framework. The
  connection is modelled with what these two read and write: whether an atomic block is
  open, the stack of savepoints of the nested blocks (each with the table as it was when
  the savepoint was taken, for the rollback), the list run_on_commit, and the table at
  the start of the transaction. Autocommit is on, savepoints are used (the defaults), and
  a task sent with delay() is appended to the queue of the broker.

  The lambda given to on_commit reads self.pk when it is called, not when it is
  registered; so a callback holds the address of the object, and the objects live in a
  heap.
\<close>

record Importer =
  pk :: "nat option"
  importer_file :: string
  importer_profile :: nat
  success_count :: int
  fail_count :: int
  errors :: "string option"

datatype task = ProcessImporter "nat option"

datatype callback = DelayProcessImporter nat

type_synonym importer_table = "nat \<rightharpoonup> Importer"

record world =
  heap :: "nat \<Rightarrow> Importer"
  table :: importer_table
  in_atomic_block :: bool
  begin_table :: importer_table
  savepoints :: "(nat \<times> importer_table) list"
  next_sid :: nat
  run_on_commit :: "(nat list \<times> callback) list"
  broker :: "task list"

fun run_callback :: "callback \<Rightarrow> world \<Rightarrow> world" where
  \<comment> \<open>\<open>tasks.process_importer.delay(self.pk)\<close>\<close>
  "run_callback (DelayProcessImporter a) w =
     w\<lparr>broker := broker w @ [ProcessImporter (pk (heap w a))]\<rparr>"

definition atomic_enter :: "world \<Rightarrow> world" where
  "atomic_enter w =
     (if \<not> in_atomic_block w
      then w\<lparr>in_atomic_block := True, begin_table := table w\<rparr>
      else w\<lparr>savepoints := (next_sid w, table w) # savepoints w,
             next_sid := Suc (next_sid w)\<rparr>)"

definition on_commit :: "callback \<Rightarrow> world \<Rightarrow> world" where
  \<comment> \<open>in an atomic block the callback is queued with the savepoints then active;
      in autocommit mode it runs at once\<close>
  "on_commit f w =
     (if in_atomic_block w
      then w\<lparr>run_on_commit := run_on_commit w @ [(map fst (savepoints w), f)]\<rparr>
      else run_callback f w)"

definition run_and_clear_commit_hooks :: "world \<Rightarrow> world" where
  "run_and_clear_commit_hooks w =
     fold run_callback (map snd (run_on_commit w)) (w\<lparr>run_on_commit := []\<rparr>)"

definition atomic_exit :: "bool \<Rightarrow> world \<Rightarrow> world" where
  \<comment> \<open>\<open>ok\<close>: the block ended without an exception. A nested block releases its savepoint,
      or rolls back to it and drops the callbacks registered since; the outermost block
      commits and runs the callbacks, or rolls back and drops them all.\<close>
  "atomic_exit ok w =
     (case savepoints w of
        (sid, snapshot) # rest \<Rightarrow>
          (if ok then w\<lparr>savepoints := rest\<rparr>
           else w\<lparr>savepoints := rest, table := snapshot,
                  run_on_commit := filter (\<lambda>(sids, f). sid \<notin> set sids) (run_on_commit w)\<rparr>)
      | [] \<Rightarrow>
          (if ok then run_and_clear_commit_hooks (w\<lparr>in_atomic_block := False\<rparr>)
           else w\<lparr>in_atomic_block := False, table := begin_table w, run_on_commit := []\<rparr>))"

text \<open>
  super().save() belongs to BaseModel (reusable/models.py) and the framework, which are
  not among the sources: \<open>base_save\<close> is a parameter. It receives the object and the
  table, and returns the saved object (with its primary key) and the new table, or
  raises.
\<close>

type_synonym base_save = "Importer \<Rightarrow> importer_table \<Rightarrow> py_error + Importer \<times> importer_table"

definition save_entered :: "nat \<Rightarrow> world \<Rightarrow> world" where
  \<comment> \<open>the state in which super().save() is called: inside the block, after on_commit\<close>
  "save_entered a w = on_commit (DelayProcessImporter a) (atomic_enter w)"

definition Importer_save :: "base_save \<Rightarrow> nat \<Rightarrow> world \<Rightarrow> py_error option \<times> world" where
  \<comment> \<open>\<open>a\<close> is the address of self; the result is the exception raised, if any, and the
      world after the with block\<close>
  "Importer_save super_save a w =
     (let w1 = save_entered a w
      in case super_save (heap w1 a) (table w1) of
           Inl e \<Rightarrow> (Some e, atomic_exit False w1)
         | Inr (self', table') \<Rightarrow>
             (None, atomic_exit True (w1\<lparr>heap := (heap w1)(a := self'), table := table'\<rparr>)))"

section \<open>The exact product, as the specification words it\<close>

text \<open>
  The value of a Decimal is the rational \<open>coefficient * 10 ^ exponent\<close>. The
  specification speaks of the product of two decimals in exact arithmetic, truncated
  toward zero; \<open>exact_truncated_product\<close> is that number, with no context involved.
\<close>

fun dec_val :: "dec \<Rightarrow> rat" where
  "dec_val (Dec c e) = of_int c * 10 powi e"



text \<open>
  The amended claim speaks of the product rounded to 28 significant digits, a tie going
  to the even digit. \<open>nearest_even\<close> rounds a rational to an integer in that way, and
  \<open>rounded_product\<close> rounds the exact product at the 28th digit of its coefficient: the
  \<open>k\<close> digits beyond the 28th are the ones that are rounded away.
\<close>

definition nearest_even :: "rat \<Rightarrow> int" where
  "nearest_even x =
     (let f = \<lfloor>x\<rfloor>
      in if x - of_int f < 1 / 2 then f
         else if 1 / 2 < x - of_int f then f + 1
         else if even f then f else f + 1)"

fun rounded_product :: "dec \<Rightarrow> dec \<Rightarrow> rat" where
  "rounded_product (Dec c1 e1) (Dec c2 e2) =
     (let c = c1 * c2; k = digits_count (nat \<bar>c\<bar>) - 28
      in of_int (sgn c * nearest_even (of_int \<bar>c\<bar> / 10 ^ k)) * 10 powi (e1 + e2 + int k))"

section \<open>Example data\<close>

definition example_platforms :: platforms where
  "example_platforms =
     \<lparr>platform_get_price =
        (\<lambda>p c m. case p of Wallex \<Rightarrow> Inr (PyDec (Dec 1300000 0)) | Bitpin \<Rightarrow> Inr PyNone),
      platform_cache_all_prices = (\<lambda>p. Inr PyNone)\<rparr>"

definition integer_platforms :: platforms where
  \<comment> \<open>platforms that quote whole numbers\<close>
  "integer_platforms =
     \<lparr>platform_get_price =
        (\<lambda>p c m. case p of Wallex \<Rightarrow> Inr (PyInt 1300000) | Bitpin \<Rightarrow> Inr (PyInt 0)),
      platform_cache_all_prices = (\<lambda>p. Inr PyNone)\<rparr>"

definition example_lib :: "rat pylib" where
  \<comment> \<open>exact rationals standing in for floats\<close>
  "example_lib =
     \<lparr>float_of_int = of_int,
      float_of_dec = (\<lambda>d. case d of Dec c e \<Rightarrow>
         if 0 \<le> e then of_int (c * 10 ^ nat e) else of_int c / of_int (10 ^ nat (- e))),
      int_truediv = (\<lambda>a b. of_int a / of_int b),
      float_mul_int = (\<lambda>x n. x * of_int n),
      float_round = (\<lambda>x n. of_int (round (x * 10 ^ n)) / 10 ^ n),
      float_str = (\<lambda>x. str_nat (nat \<lfloor>\<bar>x\<bar>\<rfloor>)),
      float_format_comma = (\<lambda>x. format_int_comma \<lfloor>x\<rfloor>),
      jdate_str = (\<lambda>d. str_nat (jyear d) @ ''-'' @ str_nat (jmonth d) @ ''-'' @ str_nat (jday d))\<rparr>"

definition example_coin :: Coin where
  "example_coin =
     \<lparr>title = Some ''Bitcoin'', code = ''BTC'', enable = True, coin_market = Some ''irt''\<rparr>"

definition example_exchanges :: "Exchange list" where
  "example_exchanges = [\<lparr>name = ''bitpin''\<rparr>, \<lparr>name = ''wallex''\<rparr>]"

definition example_buy :: Transaction where
  \<comment> \<open>2.5 coins bought at 1,250,000 toman each\<close>
  "example_buy =
     \<lparr>type = ''buy'', jdate = None, price = Dec 12500000000000000 (-10),
      quantity = Dec 25000000000 (-10), market = Some ''irt'', coin = example_coin,
      profile = 1, change = None, platform_id = None\<rparr>"

definition bitpin_last :: "Exchange list" where
  \<comment> \<open>the last exchange is Bitpin, whose price in \<open>example_platforms\<close> is None\<close>
  "bitpin_last = [\<lparr>name = ''wallex''\<rparr>, \<lparr>name = ''bitpin''\<rparr>]"

definition example_sell :: Transaction where
  "example_sell = example_buy\<lparr>type := ''sell''\<rparr>"

definition example_free :: Transaction where
  \<comment> \<open>a buy at price zero\<close>
  "example_free = example_buy\<lparr>price := Dec 0 (-10)\<rparr>"

definition null_market_buy :: Transaction where
  \<comment> \<open>the market field is nullable (null=True, blank=True)\<close>
  "null_market_buy = example_buy\<lparr>market := None\<rparr>"

definition example_usdt :: Transaction where
  \<comment> \<open>2.5 coins bought at 1.225 tether each\<close>
  "example_usdt = example_buy\<lparr>market := Some ''usdt'', price := Dec 12250000000 (-10)\<rparr>"

definition new_importer :: Importer where
  \<comment> \<open>an Importer not saved yet: it has no primary key\<close>
  "new_importer =
     \<lparr>pk = None, importer_file = ''importer/history.csv'', importer_profile = 1,
      success_count = 0, fail_count = 0, errors = None\<rparr>"

definition idle_world :: world where
  \<comment> \<open>autocommit mode, nothing pending, an empty table; the object is at address 0\<close>
  "idle_world =
     \<lparr>heap = (\<lambda>a. new_importer), table = Map.empty, in_atomic_block = False,
      begin_table = Map.empty, savepoints = [], next_sid = 0, run_on_commit = [],
      broker = []\<rparr>"

definition outer_world :: world where
  \<comment> \<open>the same, inside an atomic block opened by the caller\<close>
  "outer_world = idle_world\<lparr>in_atomic_block := True\<rparr>"

definition insert_save :: base_save where
  \<comment> \<open>a save that inserts the row with primary key 7\<close>
  "insert_save self t = Inr (self\<lparr>pk := Some 7\<rparr>, t(7 \<mapsto> self\<lparr>pk := Some 7\<rparr>))"

definition failing_save :: base_save where
  "failing_save self t = Inl (PyException ''IntegrityError'')"

definition huge_int :: int where
  "huge_int = 10 ^ 400"

definition huge_value :: int where
  "huge_value = 10 ^ 309"

definition huge_platforms :: platforms where
  \<comment> \<open>Wallex quotes the Decimal 1E+309, Bitpin the int \<open>10 ^ 400\<close>\<close>
  "huge_platforms =
     \<lparr>platform_get_price =
        (\<lambda>p c m. case p of Wallex \<Rightarrow> Inr (PyDec (Dec 1 309)) | Bitpin \<Rightarrow> Inr (PyInt huge_int)),
      platform_cache_all_prices = (\<lambda>p. Inr PyNone)\<rparr>"

definition unit_buy :: Transaction where
  \<comment> \<open>one coin bought at 1.0000000000 tether\<close>
  "unit_buy =
     \<lparr>type = ''buy'', jdate = None, price = Dec 10000000000 (-10),
      quantity = Dec 10000000000 (-10), market = Some ''usdt'', coin = example_coin,
      profile = 1, change = None, platform_id = None\<rparr>"


section \<open>The exchange dispatch\<close>

text \<open>
  C1. get_platform gives the Wallex platform for the name "wallex", the Bitpin platform
  for the name "bitpin" and raises for every other name; price and cache_all_prices
  call the platform so chosen, and raise the same exception for every other name.
\<close>

theorem get_platform_dispatch:
  "(name e = ''wallex'' \<longrightarrow>
      get_platform e = Inr Wallex
    \<and> Exchange_price ps e c m = platform_get_price ps Wallex c m
    \<and> Exchange_cache_all_prices ps e = platform_cache_all_prices ps Wallex)
 \<and> (name e = ''bitpin'' \<longrightarrow>
      get_platform e = Inr Bitpin
    \<and> Exchange_price ps e c m = platform_get_price ps Bitpin c m
    \<and> Exchange_cache_all_prices ps e = platform_cache_all_prices ps Bitpin)
 \<and> (name e \<noteq> ''wallex'' \<and> name e \<noteq> ''bitpin'' \<longrightarrow>
      get_platform e = Inl (PyException ''Exchange name is not valid'')
    \<and> Exchange_price ps e c m = Inl (PyException ''Exchange name is not valid'')
    \<and> Exchange_cache_all_prices ps e = Inl (PyException ''Exchange name is not valid''))"
  by (simp add: get_platform_def Exchange_price_def Exchange_cache_all_prices_def
      WALLEX_def BITPIN_def)

theorem get_platform_dispatch_witness:
  "get_platform \<lparr>name = ''wallex''\<rparr> = Inr Wallex
 \<and> Exchange_price example_platforms \<lparr>name = ''bitpin''\<rparr> example_coin (Some ''irt'')
     = platform_get_price example_platforms Bitpin example_coin (Some ''irt'')
 \<and> Exchange_cache_all_prices example_platforms \<lparr>name = ''nobitex''\<rparr>
     = Inl (PyException ''Exchange name is not valid'')"
  using get_platform_dispatch [of "\<lparr>name = ''wallex''\<rparr>" example_platforms example_coin "Some ''irt''"]
    get_platform_dispatch [of "\<lparr>name = ''bitpin''\<rparr>" example_platforms example_coin "Some ''irt''"]
    get_platform_dispatch [of "\<lparr>name = ''nobitex''\<rparr>" example_platforms example_coin "Some ''irt''"]
  by simp

section \<open>Transaction kinds and markets\<close>

text \<open>
  C7. When the type of a transaction is one of the declared choices, "buy" or "sell",
  exactly one of is_buy_transaction and is_sell_transaction holds; is_toman_market and
  is_usdt_market never hold together, whatever the market.
\<close>

theorem buy_sell_exclusive:
  "(type t = ''buy'' \<or> type t = ''sell'' \<longrightarrow>
      (is_buy_transaction t \<or> is_sell_transaction t)
    \<and> \<not> (is_buy_transaction t \<and> is_sell_transaction t))
 \<and> \<not> (is_toman_market t \<and> is_usdt_market t)"
  by (auto simp: is_buy_transaction_def is_sell_transaction_def is_toman_market_def
      is_usdt_market_def BUY_def SELL_def TOMAN_def TETHER_def)

theorem buy_sell_exclusive_witness:
  "type example_buy = ''buy''
 \<and> is_buy_transaction example_buy \<and> \<not> is_sell_transaction example_buy
 \<and> \<not> (is_toman_market example_buy \<and> is_usdt_market example_buy)"
proof -
  have ty: "type example_buy = ''buy''"
    by (simp add: example_buy_def)
  have "is_buy_transaction example_buy"
    by (simp add: is_buy_transaction_def BUY_def ty)
  with ty buy_sell_exclusive [of example_buy] show ?thesis
    by blast
qed


section \<open>Decimal products\<close>







lemma digits_count_zero: "digits_count 0 = 1"
  by (simp add: digits_count.simps)

lemma zero_times_decimal: "dec_int (dec_mul (Dec 0 0) q) = 0"
  by (cases q) (simp add: digits_count_zero prec_def)

section \<open>The example transactions, evaluated\<close>

lemma double_overflow_pos: "0 < double_overflow"
proof -
  have "(2::int) ^ 970 < 2 ^ 1024"
    by (rule power_strict_increasing) simp_all
  then show ?thesis
    unfolding double_overflow_def by linarith
qed

lemma double_overflow_below: "double_overflow \<le> \<bar>huge_int\<bar>"
  by (simp add: double_overflow_def huge_int_def)

lemma huge_int_nonzero: "huge_int \<noteq> 0"
  using double_overflow_pos double_overflow_below by linarith

lemma unit_overflow: "double_overflow * \<bar>1\<bar> \<le> \<bar>huge_value - 1\<bar>"
  by (simp add: double_overflow_def huge_value_def)

lemma example_in_range: "\<bar>3250000 - 3125000\<bar> < double_overflow * \<bar>3125000\<bar>"
  "\<bar>1300000\<bar> < double_overflow"
  by (simp_all add: double_overflow_def)

lemma example_current_price:
  "current_price example_platforms example_exchanges example_buy = Inr (PyDec (Dec 1300000 0))"
  by (simp add: current_price_def Coin_price_def Exchange_price_def get_platform_def
      example_exchanges_def example_platforms_def WALLEX_def BITPIN_def)


lemma example_lookup_none:
  "Coin_price example_platforms bitpin_last (coin example_buy) (market example_buy) = Inr PyNone"
  by (simp add: Coin_price_def Exchange_price_def get_platform_def
      bitpin_last_def example_platforms_def WALLEX_def BITPIN_def)

lemma example_total_price: "total_price example_buy = 3125000"
  by (simp add: total_price_def example_buy_def digits_count.simps prec_def)

lemma example_current_value:
  "get_current_value example_platforms example_exchanges example_buy = Inr 3250000"
  by (simp add: get_current_value_def example_current_price)
     (simp add: example_buy_def digits_count.simps prec_def)

lemma unit_total_price: "total_price unit_buy = 1"
  by (simp add: total_price_def unit_buy_def digits_count.simps prec_def)

lemma unit_current_value:
  "get_current_value huge_platforms example_exchanges unit_buy = Inr huge_value"
  by (simp add: get_current_value_def current_price_def Coin_price_def Exchange_price_def
      get_platform_def example_exchanges_def huge_platforms_def WALLEX_def BITPIN_def
      unit_buy_def digits_count.simps prec_def huge_value_def)

lemma example_no_exchange:
  "get_current_value example_platforms [] example_buy = Inl AttributeError"
  by (simp add: get_current_value_def current_price_def Coin_price_def)

lemma example_free_total_price: "total_price example_free = 0"
  by (simp add: total_price_def example_free_def example_buy_def digits_count.simps prec_def)

section \<open>Totals\<close>




section \<open>Profit, loss and change\<close>

lemma change_percentage_cases:
  "get_change_percentage lib ps objects t =
     (if type t = SELL then Inr (DStr ''-'')
      else if total_price t = 0 then Inr (DInt 0)
      else (case get_current_value ps objects t of
              Inl e \<Rightarrow> Inl e
            | Inr cv \<Rightarrow>
                if double_overflow * \<bar>total_price t\<bar> \<le> \<bar>cv - total_price t\<bar>
                then Inl OverflowError
                else Inr (DFloat (float_round lib
                  (float_mul_int lib (int_truediv lib (cv - total_price t) (total_price t))
                    100) 2))))"
  by (simp add: get_change_percentage_def py_truediv_def split: sum.splits)

text \<open>
  C4. For a transaction of type "sell", get_profit_or_loss is the string "-"; for one of
  type "buy" it is the thousands-separated decimal string of the integer
  get_current_value - total_price.
\<close>

theorem profit_or_loss:
  "(type t = ''sell'' \<longrightarrow> get_profit_or_loss ps objects t = Inr ''-'')
 \<and> (type t = ''buy'' \<and> get_current_value ps objects t = Inr cv \<longrightarrow>
      get_profit_or_loss ps objects t = Inr (format_int_comma (cv - total_price t)))"
  by (simp add: get_profit_or_loss_def SELL_def)

theorem profit_or_loss_witness:
  "get_profit_or_loss example_platforms example_exchanges example_sell = Inr ''-''
 \<and> get_profit_or_loss example_platforms example_exchanges example_buy = Inr ''125,000''"
proof -
  have s: "type example_sell = ''sell''" and b: "type example_buy = ''buy''"
    by (simp_all add: example_sell_def example_buy_def)
  have f: "format_int_comma 125000 = ''125,000''"
    by (simp add: format_int_comma_def str_nat.simps digit_char_def)
  from profit_or_loss [of example_sell example_platforms example_exchanges 0] s
  have "get_profit_or_loss example_platforms example_exchanges example_sell = Inr ''-''"
    by simp
  moreover
  from profit_or_loss [of example_buy example_platforms example_exchanges 3250000]
    b example_current_value
  have "get_profit_or_loss example_platforms example_exchanges example_buy = Inr ''125,000''"
    by (simp add: example_total_price f)
  ultimately show ?thesis by simp
qed

text \<open>
  C8. When the price lookup of the coin returns a falsy value (None, 0 or a zero
  Decimal), current_price is 0, get_current_value is 0 and, for a buy,
  get_profit_or_loss is the formatted negation of total_price: nothing is raised.
\<close>

theorem falsy_price_absorbed:
  "Coin_price ps objects (coin t) (market t) = Inr v \<and> \<not> truthy v \<longrightarrow>
     current_price ps objects t = Inr (PyInt 0)
   \<and> get_current_value ps objects t = Inr 0
   \<and> (type t = ''buy'' \<longrightarrow>
        get_profit_or_loss ps objects t = Inr (format_int_comma (- total_price t)))"
  by (simp add: current_price_def get_current_value_def get_profit_or_loss_def SELL_def
      zero_times_decimal del: dec_mul.simps)

theorem falsy_price_absorbed_witness:
  "current_price example_platforms bitpin_last example_buy = Inr (PyInt 0)
 \<and> get_current_value example_platforms bitpin_last example_buy = Inr 0
 \<and> get_profit_or_loss example_platforms bitpin_last example_buy = Inr ''-3,125,000''"
proof -
  have b: "type example_buy = ''buy''"
    by (simp add: example_buy_def)
  have f: "format_int_comma (- 3125000) = ''-3,125,000''"
    by (simp add: format_int_comma_def str_nat.simps digit_char_def)
  from falsy_price_absorbed [of example_platforms bitpin_last example_buy PyNone]
    example_lookup_none b
  show ?thesis
    by (simp add: example_total_price f)
qed

text \<open>
  C2 (amended). get_change_percentage never divides by zero. For a "sell" it is the
  string "-". For a "buy" whose total_price is 0 it is 0, and no division happens. For a
  "buy" whose total_price is not 0 it is ((get_current_value - total_price) /
  total_price) * 100 rounded to 2 places when the quotient fits a float, that is when
  \<open>\<bar>get_current_value - total_price\<bar> < (2 ^ 1024 - 2 ^ 970) * \<bar>total_price\<bar>\<close>; from there
  on the division raises OverflowError. Its other exceptions are those of
  get_current_value.
\<close>

theorem change_percentage:
  "(type t = ''sell'' \<longrightarrow> get_change_percentage lib ps objects t = Inr (DStr ''-''))
 \<and> (type t = ''buy'' \<and> total_price t = 0 \<longrightarrow>
      get_change_percentage lib ps objects t = Inr (DInt 0))
 \<and> (type t = ''buy'' \<and> total_price t \<noteq> 0 \<and> get_current_value ps objects t = Inr cv
      \<and> \<bar>cv - total_price t\<bar> < double_overflow * \<bar>total_price t\<bar> \<longrightarrow>
      get_change_percentage lib ps objects t =
        Inr (DFloat (float_round lib
          (float_mul_int lib (int_truediv lib (cv - total_price t) (total_price t)) 100) 2)))
 \<and> (type t = ''buy'' \<and> total_price t \<noteq> 0 \<and> get_current_value ps objects t = Inr cv
      \<and> double_overflow * \<bar>total_price t\<bar> \<le> \<bar>cv - total_price t\<bar> \<longrightarrow>
      get_change_percentage lib ps objects t = Inl OverflowError)
 \<and> (get_current_value ps objects t = Inr cv \<longrightarrow>
      get_change_percentage lib ps objects t \<noteq> Inl ZeroDivisionError)
 \<and> (get_change_percentage lib ps objects t = Inl e \<longrightarrow>
      get_current_value ps objects t = Inl e \<or> e = OverflowError)"
  by (simp add: change_percentage_cases SELL_def split: sum.splits)

text \<open>
  A buy of one coin at price 1 while the platform quotes 1E+309: total_price is 1,
  get_current_value is \<open>10 ^ 309\<close>, and the quotient is too large for a float.
\<close>

theorem change_percentage_overflow_counterexample:
  "type unit_buy = ''buy''
 \<and> total_price unit_buy = 1
 \<and> get_change_percentage example_lib huge_platforms example_exchanges unit_buy
     = Inl OverflowError"
proof -
  have ty: "type unit_buy = ''buy''"
    by (simp add: unit_buy_def)
  have "get_change_percentage example_lib huge_platforms example_exchanges unit_buy
      = Inl OverflowError"
    using unit_overflow
    by (simp add: change_percentage_cases unit_total_price unit_current_value SELL_def ty)
  with ty unit_total_price show ?thesis by simp
qed

theorem change_percentage_witness:
  "get_change_percentage example_lib example_platforms example_exchanges example_sell
     = Inr (DStr ''-'')
 \<and> get_change_percentage example_lib example_platforms example_exchanges example_free
     = Inr (DInt 0)
 \<and> get_change_percentage example_lib example_platforms example_exchanges example_buy
     = Inr (DFloat (float_round example_lib
         (float_mul_int example_lib (int_truediv example_lib 125000 3125000) 100) 2))
 \<and> get_change_percentage example_lib huge_platforms example_exchanges unit_buy
     = Inl OverflowError
 \<and> get_current_value example_platforms [] example_buy = Inl AttributeError"
proof -
  have s: "type example_sell = ''sell''" and b: "type example_buy = ''buy''"
   and f: "type example_free = ''buy''" and u: "type unit_buy = ''buy''"
    by (simp_all add: example_sell_def example_free_def example_buy_def unit_buy_def)
  from change_percentage [of example_sell example_lib example_platforms example_exchanges 0] s
  have "get_change_percentage example_lib example_platforms example_exchanges example_sell
      = Inr (DStr ''-'')"
    by simp
  moreover
  from change_percentage [of example_free example_lib example_platforms example_exchanges 0]
    f example_free_total_price
  have "get_change_percentage example_lib example_platforms example_exchanges example_free
      = Inr (DInt 0)"
    by simp
  moreover
  from change_percentage [of example_buy example_lib example_platforms example_exchanges
      3250000] b example_current_value example_in_range
  have "get_change_percentage example_lib example_platforms example_exchanges example_buy
      = Inr (DFloat (float_round example_lib
          (float_mul_int example_lib (int_truediv example_lib 125000 3125000) 100) 2))"
    by (simp add: example_total_price)
  moreover
  from change_percentage [of unit_buy example_lib huge_platforms example_exchanges
      huge_value] u unit_current_value unit_overflow
  have "get_change_percentage example_lib huge_platforms example_exchanges unit_buy
      = Inl OverflowError"
    by (simp add: unit_total_price)
  moreover
  have "get_change_percentage example_lib example_platforms [] example_buy
      = Inl AttributeError"
    by (simp add: change_percentage_cases example_total_price example_no_exchange SELL_def b)
  with change_percentage [of example_buy example_lib example_platforms "[]" 0 AttributeError]
  have "get_current_value example_platforms [] example_buy = Inl AttributeError"
    by simp
  ultimately show ?thesis by simp
qed

section \<open>The price of a coin\<close>

lemma Coin_price_empty: "Coin_price ps [] c m = Inl AttributeError"
  by (simp add: Coin_price_def)

lemma Coin_price_nonempty:
  "objects \<noteq> [] \<Longrightarrow> Coin_price ps objects c m = Exchange_price ps (last objects) c m"
  by (cases objects) (simp_all add: Coin_price_def)

lemma Exchange_price_valid_name:
  assumes "Exchange_price ps e c m = Inr v"
  shows "name e = ''wallex'' \<or> name e = ''bitpin''"
proof (rule ccontr)
  assume "\<not> (name e = ''wallex'' \<or> name e = ''bitpin'')"
  then have "Exchange_price ps e c m = Inl (PyException ''Exchange name is not valid'')"
    by (simp add: Exchange_price_def get_platform_def WALLEX_def BITPIN_def)
  with assms show False by simp
qed

lemma Coin_get_price_unfold:
  "Coin_price ps objects c m = r \<Longrightarrow>
   Coin_get_price lib ps objects c m =
     (case r of Inl e \<Rightarrow> Inl e
      | Inr v \<Rightarrow> (case py_float lib v of Inl e \<Rightarrow> Inl e
                   | Inr f \<Rightarrow> Inr (float_format_comma lib f)))"
  by (simp add: Coin_get_price_def)

lemma example_coin_price:
  "Coin_price example_platforms example_exchanges example_coin (Some ''irt'')
     = Inr (PyDec (Dec 1300000 0))"
  by (simp add: Coin_price_def Exchange_price_def get_platform_def
      example_exchanges_def example_platforms_def WALLEX_def BITPIN_def)

lemma huge_coin_price:
  "Coin_price huge_platforms bitpin_last example_coin (Some ''irt'') = Inr (PyInt huge_int)"
  by (simp add: Coin_price_def Exchange_price_def get_platform_def
      bitpin_last_def huge_platforms_def WALLEX_def BITPIN_def)

lemma integer_coin_price:
  "Coin_price integer_platforms example_exchanges example_coin (Some ''irt'')
     = Inr (PyInt 1300000)"
  by (simp add: Coin_price_def Exchange_price_def get_platform_def
      example_exchanges_def integer_platforms_def WALLEX_def BITPIN_def)

text \<open>
  C10 (amended). Coin.price asks the last Exchange record for the price. With no
  Exchange record last() is None and the call fails; otherwise it is the price of the
  last record, so a price is only returned when a record with a valid name exists (the
  last one). Coin.get_price is that price converted to float and formatted with
  thousands separators when the price is a Decimal, or an int of magnitude below
  \<open>2 ^ 1024 - 2 ^ 970\<close>; float() raises OverflowError for a larger int and TypeError for
  None.
\<close>

theorem coin_price_last_exchange:
  "(objects = [] \<longrightarrow>
      Coin_price ps objects c m = Inl AttributeError
    \<and> Coin_get_price lib ps objects c m = Inl AttributeError)
 \<and> (objects \<noteq> [] \<longrightarrow> Coin_price ps objects c m = Exchange_price ps (last objects) c m)
 \<and> (Coin_price ps objects c m = Inr v \<longrightarrow>
      objects \<noteq> []
    \<and> (name (last objects) = ''wallex'' \<or> name (last objects) = ''bitpin'')
    \<and> (\<exists>e \<in> set objects. name e = ''wallex'' \<or> name e = ''bitpin''))
 \<and> (Coin_price ps objects c m = Inr (PyDec d) \<longrightarrow>
      Coin_get_price lib ps objects c m = Inr (float_format_comma lib (float_of_dec lib d)))
 \<and> (Coin_price ps objects c m = Inr (PyInt n) \<and> \<bar>n\<bar> < double_overflow \<longrightarrow>
      Coin_get_price lib ps objects c m = Inr (float_format_comma lib (float_of_int lib n)))
 \<and> (Coin_price ps objects c m = Inr (PyInt n) \<and> double_overflow \<le> \<bar>n\<bar> \<longrightarrow>
      Coin_get_price lib ps objects c m = Inl OverflowError)
 \<and> (Coin_price ps objects c m = Inr PyNone \<longrightarrow>
      Coin_get_price lib ps objects c m = Inl TypeError)
 \<and> (Coin_price ps objects c m = Inl e \<longrightarrow> Coin_get_price lib ps objects c m = Inl e)"
proof (intro conjI impI)
  assume "objects = []"
  then show "Coin_price ps objects c m = Inl AttributeError"
    by (simp add: Coin_price_empty)
next
  assume "objects = []"
  then show "Coin_get_price lib ps objects c m = Inl AttributeError"
    by (simp add: Coin_get_price_def Coin_price_empty)
next
  assume "objects \<noteq> []"
  then show "Coin_price ps objects c m = Exchange_price ps (last objects) c m"
    by (rule Coin_price_nonempty)
next
  assume ok: "Coin_price ps objects c m = Inr v"
  show ne: "objects \<noteq> []"
  proof
    assume "objects = []"
    with ok show False by (simp add: Coin_price_empty)
  qed
  from ok Coin_price_nonempty [OF ne, of ps c m]
  have "Exchange_price ps (last objects) c m = Inr v" by simp
  then show valid: "name (last objects) = ''wallex'' \<or> name (last objects) = ''bitpin''"
    by (rule Exchange_price_valid_name)
  from ne have "last objects \<in> set objects" by (rule last_in_set)
  with valid show "\<exists>e \<in> set objects. name e = ''wallex'' \<or> name e = ''bitpin''"
    by blast
next
  assume "Coin_price ps objects c m = Inr (PyDec d)"
  then show "Coin_get_price lib ps objects c m
      = Inr (float_format_comma lib (float_of_dec lib d))"
    by (simp add: Coin_get_price_unfold)
next
  assume "Coin_price ps objects c m = Inr (PyInt n) \<and> \<bar>n\<bar> < double_overflow"
  then show "Coin_get_price lib ps objects c m
      = Inr (float_format_comma lib (float_of_int lib n))"
    by (simp add: Coin_get_price_unfold)
next
  assume "Coin_price ps objects c m = Inr (PyInt n) \<and> double_overflow \<le> \<bar>n\<bar>"
  then show "Coin_get_price lib ps objects c m = Inl OverflowError"
    by (simp add: Coin_get_price_unfold)
next
  assume "Coin_price ps objects c m = Inr PyNone"
  then show "Coin_get_price lib ps objects c m = Inl TypeError"
    by (simp add: Coin_get_price_unfold)
next
  assume "Coin_price ps objects c m = Inl e"
  then show "Coin_get_price lib ps objects c m = Inl e"
    by (simp add: Coin_get_price_unfold)
qed

text \<open>
  The last exchange is Bitpin and it quotes the int \<open>10 ^ 400\<close>: Coin.price returns it, and
  Coin.get_price raises.
\<close>

theorem coin_get_price_overflow_counterexample:
  "Coin_price huge_platforms bitpin_last example_coin (Some ''irt'') = Inr (PyInt huge_int)
 \<and> Coin_get_price example_lib huge_platforms bitpin_last example_coin (Some ''irt'')
     = Inl OverflowError"
  using double_overflow_below
  by (simp add: Coin_get_price_unfold [OF huge_coin_price] huge_coin_price)

theorem coin_price_last_exchange_witness:
  "Coin_price example_platforms [] example_coin (Some ''irt'') = Inl AttributeError
 \<and> Coin_get_price example_lib example_platforms [] example_coin (Some ''irt'')
     = Inl AttributeError
 \<and> Coin_price example_platforms example_exchanges example_coin (Some ''irt'')
     = Exchange_price example_platforms \<lparr>name = ''wallex''\<rparr> example_coin (Some ''irt'')
 \<and> (\<exists>e \<in> set example_exchanges. name e = ''wallex'' \<or> name e = ''bitpin'')
 \<and> Coin_get_price example_lib example_platforms example_exchanges example_coin (Some ''irt'')
     = Inr (float_format_comma example_lib (float_of_dec example_lib (Dec 1300000 0)))
 \<and> Coin_get_price example_lib integer_platforms example_exchanges example_coin (Some ''irt'')
     = Inr (float_format_comma example_lib (float_of_int example_lib 1300000))
 \<and> Coin_get_price example_lib huge_platforms bitpin_last example_coin (Some ''irt'')
     = Inl OverflowError
 \<and> Coin_get_price example_lib example_platforms bitpin_last example_coin (Some ''irt'')
     = Inl TypeError"
proof -
  have ne: "example_exchanges \<noteq> []"
   and l: "last example_exchanges = \<lparr>name = ''wallex''\<rparr>"
    by (simp_all add: example_exchanges_def)
  note big = double_overflow_below
  have none: "Coin_price example_platforms bitpin_last example_coin (Some ''irt'') = Inr PyNone"
    using example_lookup_none by (simp add: example_buy_def)
  from coin_price_last_exchange [of "[]" example_platforms example_coin "Some ''irt''"
      example_lib PyNone "Dec 0 0" 0 AttributeError]
  have "Coin_price example_platforms [] example_coin (Some ''irt'') = Inl AttributeError
      \<and> Coin_get_price example_lib example_platforms [] example_coin (Some ''irt'')
          = Inl AttributeError"
    by simp
  moreover
  from coin_price_last_exchange [of example_exchanges example_platforms example_coin
      "Some ''irt''" example_lib "PyDec (Dec 1300000 0)" "Dec 1300000 0" 0 AttributeError]
    ne l example_coin_price
  have "Coin_price example_platforms example_exchanges example_coin (Some ''irt'')
        = Exchange_price example_platforms \<lparr>name = ''wallex''\<rparr> example_coin (Some ''irt'')
      \<and> (\<exists>e \<in> set example_exchanges. name e = ''wallex'' \<or> name e = ''bitpin'')
      \<and> Coin_get_price example_lib example_platforms example_exchanges example_coin
          (Some ''irt'')
        = Inr (float_format_comma example_lib (float_of_dec example_lib (Dec 1300000 0)))"
    by simp
  moreover
  from coin_price_last_exchange [of example_exchanges integer_platforms example_coin
      "Some ''irt''" example_lib "PyInt 1300000" "Dec 0 0" 1300000 AttributeError]
    integer_coin_price example_in_range
  have "Coin_get_price example_lib integer_platforms example_exchanges example_coin
          (Some ''irt'')
        = Inr (float_format_comma example_lib (float_of_int example_lib 1300000))"
    by simp
  moreover
  from coin_price_last_exchange [of bitpin_last huge_platforms example_coin
      "Some ''irt''" example_lib "PyInt huge_int" "Dec 0 0" huge_int AttributeError]
    huge_coin_price big
  have "Coin_get_price example_lib huge_platforms bitpin_last example_coin (Some ''irt'')
        = Inl OverflowError"
    by simp
  moreover
  from coin_price_last_exchange [of bitpin_last example_platforms example_coin
      "Some ''irt''" example_lib PyNone "Dec 0 0" 0 AttributeError] none
  have "Coin_get_price example_lib example_platforms bitpin_last example_coin (Some ''irt'')
        = Inl TypeError"
    by simp
  ultimately show ?thesis by simp
qed

section \<open>The platform id\<close>

lemma construct_platform_id_joined:
  assumes "market t = Some m"
  shows "construct_platform_id lib t =
    Inr (lower ((case jdate t of None \<Rightarrow> ''None'' | Some d \<Rightarrow> jdate_str lib d)
      @ ''|'' @ code (coin t) @ ''|'' @ m @ ''|'' @ type t
      @ ''|'' @ float_str lib (float_of_dec lib (quantity t))
      @ ''|'' @ float_str lib (float_of_dec lib (price t))))"
  using assms by (simp add: construct_platform_id_def platform_id_components_def)

lemma construct_platform_id_no_market:
  assumes "market t = None"
  shows "construct_platform_id lib t = Inl TypeError"
  using assms by (simp add: construct_platform_id_def platform_id_components_def)

text \<open>
  C9. construct_platform_id is claimed to be, for every Transaction, the lowercase of the
  six components joined with "|". The market of a Transaction may be None, and then the
  join raises a TypeError instead: the transaction below is \<open>example_buy\<close> with no market.
\<close>

theorem construct_platform_id_null_market:
  "construct_platform_id example_lib null_market_buy = Inl TypeError"
  by (simp add: construct_platform_id_def platform_id_components_def null_market_buy_def)

section \<open>Display formatting\<close>

lemma digits_count_upper: "n < 10 ^ digits_count n"
proof (induction n rule: digits_count.induct)
  case (1 n)
  show ?case
  proof (cases "n < 10")
    case True
    then show ?thesis by (simp add: digits_count.simps)
  next
    case False
    with 1 have "n div 10 < 10 ^ digits_count (n div 10)" by simp
    then have "n < 10 * 10 ^ digits_count (n div 10)"
      by (simp add: div_less_iff_less_mult mult.commute)
    with False show ?thesis by (simp add: digits_count.simps [of n])
  qed
qed

lemma digits_count_lower: "10 ^ k \<le> n \<Longrightarrow> k < digits_count n"
proof -
  assume "10 ^ k \<le> n"
  also have "n < 10 ^ digits_count n"
    by (rule digits_count_upper)
  finally show ?thesis
    by (simp add: power_strict_increasing_iff)
qed

lemma digits_count_le: "n < 10 ^ k \<Longrightarrow> 0 < k \<Longrightarrow> digits_count n \<le> k"
proof (induction k arbitrary: n)
  case 0
  then show ?case by simp
next
  case (Suc k)
  show ?case
  proof (cases "n < 10")
    case True
    then show ?thesis by (simp add: digits_count.simps)
  next
    case False
    then have k: "0 < k" using Suc.prems by (cases k) auto
    have "n div 10 < 10 ^ k" using Suc.prems by (simp add: less_mult_imp_div_less mult.commute)
    from Suc.IH [OF this k] False show ?thesis
      by (simp add: digits_count.simps [of n])
  qed
qed

lemma round_half_even_le: "round_half_even n d \<le> n div d + 1"
  by (simp add: round_half_even_def Let_def)

lemma rescale_fits:
  assumes "fits_field 20 10 d" and "n \<le> 10"
  shows "digits_count (nat \<bar>dec_coeff (dec_rescale d (- int n))\<bar>) \<le> 28"
proof -
  obtain c e where d: "d = Dec c e" by (cases d)
  from assms d have e: "- 10 \<le> e" and c: "\<bar>c\<bar> * 10 ^ nat (e + 10) < 10 ^ 20"
    by simp_all
  have small: "nat \<bar>dec_coeff (dec_rescale d (- int n))\<bar> < 10 ^ 28"
  proof (cases "- int n \<le> e")
    case True
    have "nat (e + int n) \<le> nat (e + 10)" using assms(2) by simp
    then have "(10::int) ^ nat (e + int n) \<le> 10 ^ nat (e + 10)"
      by (intro power_increasing) simp_all
    then have "\<bar>c\<bar> * 10 ^ nat (e + int n) \<le> \<bar>c\<bar> * 10 ^ nat (e + 10)"
      by (intro mult_left_mono) simp_all
    with c have "\<bar>c * 10 ^ nat (e + int n)\<bar> < 10 ^ 20"
      by (simp add: abs_mult)
    then have "\<bar>c * 10 ^ nat (e + int n)\<bar> < 10 ^ 28" by simp
    with True d show ?thesis by (simp del: of_nat_power add: nat_less_iff)
  next
    case False
    have "\<bar>c\<bar> * 1 \<le> \<bar>c\<bar> * 10 ^ nat (e + 10)"
      by (intro mult_left_mono) simp_all
    with c have c20: "\<bar>c\<bar> < 10 ^ 20" by simp
    have "round_half_even (nat \<bar>c\<bar>) (10 ^ nat (- int n - e)) \<le> nat \<bar>c\<bar> div 10 ^ nat (- int n - e) + 1"
      by (rule round_half_even_le)
    also have "\<dots> \<le> nat \<bar>c\<bar> + 1" by (simp add: div_le_dividend)
    also have "\<dots> < 10 ^ 28" using c20 by (simp add: nat_less_iff)
    finally have "round_half_even (nat \<bar>c\<bar>) (10 ^ nat (- int n - e)) < 10 ^ 28" .
    with False d show ?thesis
      by (simp add: abs_mult abs_sgn_eq nat_mult_distrib)
  qed
  then show ?thesis by (rule digits_count_le) simp
qed

lemma dec_round_fits:
  assumes "fits_field 20 10 d" and "n \<le> 10"
  shows "dec_round d n = Inr (dec_rescale d (- int n))"
  using rescale_fits [OF assms] by (simp add: dec_round_def prec_def Let_def)

lemma round_half_even_near:
  assumes "0 < d"
  shows "2 * \<bar>int (round_half_even n d) * int d - int n\<bar> \<le> int d"
proof -
  define q r where "q = n div d" and "r = n mod d"
  have n: "int n = int q * int d + int r"
    unfolding q_def r_def by (metis div_mult_mod_eq of_nat_add of_nat_mult)
  have r: "r < d" unfolding r_def using assms by simp
  have m: "round_half_even n d = q \<or> round_half_even n d = q + 1"
    by (simp add: round_half_even_def Let_def q_def)
  have lo: "round_half_even n d = q \<Longrightarrow> 2 * r \<le> d"
    by (simp add: round_half_even_def Let_def q_def r_def split: if_splits)
  have hi: "round_half_even n d = q + 1 \<Longrightarrow> d \<le> 2 * r"
    by (simp add: round_half_even_def Let_def q_def r_def split: if_splits)
  from m show ?thesis
  proof
    assume a: "round_half_even n d = q"
    from lo [OF a] show ?thesis by (simp add: a n)
  next
    assume a: "round_half_even n d = q + 1"
    from hi [OF a] r show ?thesis by (simp add: a n algebra_simps)
  qed
qed

lemma dec_rescale_near:
  "\<bar>dec_val (dec_rescale d ex) - dec_val d\<bar> \<le> 10 powi ex / 2"
proof -
  obtain c e where d: "d = Dec c e" by (cases d)
  show ?thesis
  proof (cases "ex \<le> e")
    case True
    then have "(10::rat) powi e = 10 powi ex * 10 ^ nat (e - ex)"
      by (simp add: power_int_add [symmetric] flip: power_int_of_nat)
    with True d show ?thesis by simp
  next
    case False
    define k where "k = nat (ex - e)"
    define m where "m = round_half_even (nat \<bar>c\<bar>) (10 ^ k)"
    have ex: "(10::rat) powi ex = 10 powi e * 10 ^ k"
      using False by (simp add: k_def power_int_add [symmetric] flip: power_int_of_nat)
    define u where "u = int m * 10 ^ k - \<bar>c\<bar>"
    define t where "t = sgn c * u"
    have near: "2 * \<bar>u\<bar> \<le> 10 ^ k"
      using round_half_even_near [of "10 ^ k" "nat \<bar>c\<bar>"] by (simp add: m_def u_def)
    have "\<bar>t\<bar> \<le> \<bar>u\<bar>"
      by (simp add: t_def abs_mult abs_sgn_eq)
    with near have t: "2 * \<bar>t\<bar> \<le> 10 ^ k" by simp
    have "(of_int (2 * \<bar>t\<bar>) :: rat) \<le> of_int (10 ^ k)"
      using t by (simp only: of_int_le_iff)
    then have half: "(of_int \<bar>t\<bar> :: rat) \<le> 10 ^ k / 2" by simp
    have int_eq: "sgn c * int m * 10 ^ k - c = t"
      using mult_sgn_abs [of c] by (simp add: t_def u_def algebra_simps)
    have "dec_val (dec_rescale d ex) - dec_val d
        = 10 powi e * of_int (sgn c * int m * 10 ^ k - c)"
      using False d by (simp add: ex k_def m_def algebra_simps)
    then have "dec_val (dec_rescale d ex) - dec_val d = 10 powi e * of_int t"
      by (simp only: int_eq)
    then have "\<bar>dec_val (dec_rescale d ex) - dec_val d\<bar> = 10 powi e * of_int \<bar>t\<bar>"
      by (simp add: abs_mult)
    also have "\<dots> \<le> 10 powi e * (10 ^ k / 2)"
      using half by (intro mult_left_mono) simp_all
    finally show ?thesis by (simp add: ex)
  qed
qed

lemma example_usdt_current_price:
  "current_price example_platforms example_exchanges example_usdt = Inr (PyDec (Dec 1300000 0))"
  by (simp add: current_price_def Coin_price_def Exchange_price_def get_platform_def
      example_exchanges_def example_platforms_def WALLEX_def BITPIN_def)

lemma example_usdt_huge_integer_price:
  "current_price huge_platforms bitpin_last example_usdt = Inr (PyInt huge_int)"
  by (simp add: current_price_def Coin_price_def Exchange_price_def get_platform_def
      bitpin_last_def huge_platforms_def WALLEX_def BITPIN_def huge_int_nonzero)

lemma example_usdt_huge_decimal_price:
  "current_price huge_platforms example_exchanges example_usdt = Inr (PyDec (Dec 1 309))"
  by (simp add: current_price_def Coin_price_def Exchange_price_def get_platform_def
      example_exchanges_def huge_platforms_def WALLEX_def BITPIN_def)

lemma round_huge_decimal: "dec_round (Dec 1 309) 2 = Inl InvalidOperation"
proof -
  have r: "dec_rescale (Dec 1 309) (- 2) = Dec (10 ^ 311) (- 2)"
    by (simp del: power_numeral)
  have n: "nat ((10::int) ^ 311) = 10 ^ 311"
    by (simp add: nat_power_eq del: power_numeral)
  have "(10::nat) ^ 28 \<le> 10 ^ 311"
    by (rule power_increasing) simp_all
  then have "28 < digits_count (10 ^ 311)"
    by (rule digits_count_lower)
  then show ?thesis
    by (simp add: dec_round_def prec_def Let_def r n del: dec_rescale.simps power_numeral)
qed

lemma example_usdt_integer_price:
  "current_price integer_platforms example_exchanges example_usdt = Inr (PyInt 1300000)"
  by (simp add: current_price_def Coin_price_def Exchange_price_def get_platform_def
      example_exchanges_def integer_platforms_def WALLEX_def BITPIN_def)

text \<open>
  C6 (amended). The display properties format the stored numbers and depend on the
  market only: get_price is the thousands-separated string of int(price) when the market
  is "irt", and otherwise the float of price rounded to 2 decimal places;
  get_current_price is the same for current_price; get_quantity is the float of quantity
  rounded to 6 decimal places. For a value that fits the field (20 digits, 10 of them
  decimal) the rounding never fails, and it is within half a unit of the last place
  kept. For a current price that is an int, float() raises OverflowError from the
  magnitude \<open>2 ^ 1024 - 2 ^ 970\<close> on; for one that is a Decimal, round() raises when the
  rounded value needs more than 28 digits.
\<close>

theorem display_formatting:
  "(market t = Some ''irt'' \<longrightarrow>
      get_price lib t = Inr (DStr (format_int_comma (dec_int (price t)))))
 \<and> (market t \<noteq> Some ''irt'' \<and> fits_field 20 10 (price t) \<longrightarrow>
      get_price lib t = Inr (DFloat (float_of_dec lib (dec_rescale (price t) (- 2))))
    \<and> \<bar>dec_val (dec_rescale (price t) (- 2)) - dec_val (price t)\<bar> \<le> 1 / 200)
 \<and> (market t = Some ''irt'' \<and> current_price ps objects t = Inr v \<and> py_int v = Inr n \<longrightarrow>
      get_current_price lib ps objects t = Inr (DStr (format_int_comma n)))
 \<and> (market t \<noteq> Some ''irt'' \<and> current_price ps objects t = Inr (PyDec d)
      \<and> dec_round d 2 = Inr r \<longrightarrow>
      get_current_price lib ps objects t = Inr (DFloat (float_of_dec lib r))
    \<and> r = dec_rescale d (- 2))
 \<and> (market t \<noteq> Some ''irt'' \<and> current_price ps objects t = Inr (PyInt i)
      \<and> \<bar>i\<bar> < double_overflow \<longrightarrow>
      get_current_price lib ps objects t = Inr (DFloat (float_of_int lib i)))
 \<and> (market t \<noteq> Some ''irt'' \<and> current_price ps objects t = Inr (PyInt i)
      \<and> double_overflow \<le> \<bar>i\<bar> \<longrightarrow>
      get_current_price lib ps objects t = Inl OverflowError)
 \<and> (market t \<noteq> Some ''irt'' \<and> current_price ps objects t = Inr (PyDec d)
      \<and> dec_round d 2 = Inl e \<longrightarrow>
      get_current_price lib ps objects t = Inl e)
 \<and> (fits_field 20 10 (quantity t) \<longrightarrow>
      get_quantity lib t = Inr (float_of_dec lib (dec_rescale (quantity t) (- 6)))
    \<and> \<bar>dec_val (dec_rescale (quantity t) (- 6)) - dec_val (quantity t)\<bar> \<le> 1 / 2000000)"
proof (intro conjI impI)
  assume "market t = Some ''irt''"
  then show "get_price lib t = Inr (DStr (format_int_comma (dec_int (price t))))"
    by (simp add: get_price_def TOMAN_def)
next
  assume a: "market t \<noteq> Some ''irt'' \<and> fits_field 20 10 (price t)"
  then have "dec_round (price t) 2 = Inr (dec_rescale (price t) (- 2))"
    using dec_round_fits [of "price t" 2] by simp
  with a show "get_price lib t = Inr (DFloat (float_of_dec lib (dec_rescale (price t) (- 2))))"
    by (simp add: get_price_def TOMAN_def)
next
  show "\<bar>dec_val (dec_rescale (price t) (- 2)) - dec_val (price t)\<bar> \<le> 1 / 200"
    using dec_rescale_near [of "price t" "- 2"] by (simp add: power_int_minus)
next
  assume "market t = Some ''irt'' \<and> current_price ps objects t = Inr v \<and> py_int v = Inr n"
  then show "get_current_price lib ps objects t = Inr (DStr (format_int_comma n))"
    by (simp add: get_current_price_def TOMAN_def)
next
  assume a: "market t \<noteq> Some ''irt'' \<and> current_price ps objects t = Inr (PyDec d)
      \<and> dec_round d 2 = Inr r"
  then show "get_current_price lib ps objects t = Inr (DFloat (float_of_dec lib r))"
    by (simp add: get_current_price_def TOMAN_def)
  from a show "r = dec_rescale d (- 2)"
    by (simp add: dec_round_def Let_def split: if_splits)
next
  assume "market t \<noteq> Some ''irt'' \<and> current_price ps objects t = Inr (PyInt i)
      \<and> \<bar>i\<bar> < double_overflow"
  then show "get_current_price lib ps objects t = Inr (DFloat (float_of_int lib i))"
    by (simp add: get_current_price_def TOMAN_def)
next
  assume "market t \<noteq> Some ''irt'' \<and> current_price ps objects t = Inr (PyInt i)
      \<and> double_overflow \<le> \<bar>i\<bar>"
  then show "get_current_price lib ps objects t = Inl OverflowError"
    by (simp add: get_current_price_def TOMAN_def)
next
  assume "market t \<noteq> Some ''irt'' \<and> current_price ps objects t = Inr (PyDec d)
      \<and> dec_round d 2 = Inl e"
  then show "get_current_price lib ps objects t = Inl e"
    by (simp add: get_current_price_def TOMAN_def)
next
  assume "fits_field 20 10 (quantity t)"
  then have "dec_round (quantity t) 6 = Inr (dec_rescale (quantity t) (- 6))"
    using dec_round_fits [of "quantity t" 6] by simp
  then show "get_quantity lib t = Inr (float_of_dec lib (dec_rescale (quantity t) (- 6)))"
    by (simp add: get_quantity_def)
next
  show "\<bar>dec_val (dec_rescale (quantity t) (- 6)) - dec_val (quantity t)\<bar> \<le> 1 / 2000000"
    using dec_rescale_near [of "quantity t" "- 6"] by (simp add: power_int_minus)
qed

text \<open>
  The market is "usdt" and the last exchange, Bitpin, quotes the int \<open>10 ^ 400\<close>:
  current_price is that int, and get_current_price raises instead of giving its float.
\<close>

theorem current_price_overflow_counterexample:
  "market example_usdt = Some ''usdt''
 \<and> current_price huge_platforms bitpin_last example_usdt = Inr (PyInt huge_int)
 \<and> get_current_price example_lib huge_platforms bitpin_last example_usdt
     = Inl OverflowError"
proof -
  have m: "market example_usdt = Some ''usdt''"
    by (simp add: example_usdt_def)
  have "get_current_price example_lib huge_platforms bitpin_last example_usdt
      = Inl OverflowError"
    using double_overflow_below
    by (simp add: get_current_price_def m TOMAN_def example_usdt_huge_integer_price)
  with m example_usdt_huge_integer_price show ?thesis by simp
qed

theorem display_formatting_witness:
  "get_price example_lib example_buy = Inr (DStr ''1,250,000'')
 \<and> get_price example_lib example_usdt = Inr (DFloat (float_of_dec example_lib (Dec 122 (- 2))))
 \<and> get_current_price example_lib example_platforms example_exchanges example_buy
     = Inr (DStr ''1,300,000'')
 \<and> get_current_price example_lib example_platforms example_exchanges example_usdt
     = Inr (DFloat (float_of_dec example_lib (Dec 130000000 (- 2))))
 \<and> get_current_price example_lib integer_platforms example_exchanges example_usdt
     = Inr (DFloat (float_of_int example_lib 1300000))
 \<and> get_quantity example_lib example_usdt
     = Inr (float_of_dec example_lib (Dec 2500000 (- 6)))
 \<and> get_current_price example_lib huge_platforms bitpin_last example_usdt
     = Inl OverflowError
 \<and> get_current_price example_lib huge_platforms example_exchanges example_usdt
     = Inl InvalidOperation"
proof -
  note big = double_overflow_below
  have b: "market example_buy = Some ''irt''" "price example_buy = Dec 12500000000000000 (- 10)"
    by (simp_all add: example_buy_def)
  have u: "market example_usdt \<noteq> Some ''irt''" "price example_usdt = Dec 12250000000 (- 10)"
    "quantity example_usdt = Dec 25000000000 (- 10)"
    by (simp_all add: example_usdt_def example_buy_def)
  have f1: "format_int_comma 1250000 = ''1,250,000''"
   and f2: "format_int_comma 1300000 = ''1,300,000''"
    by (simp_all add: format_int_comma_def str_nat.simps digit_char_def)
  have r1: "dec_rescale (Dec 12250000000 (- 10)) (- 2) = Dec 122 (- 2)"
   and r2: "dec_rescale (Dec 25000000000 (- 10)) (- 6) = Dec 2500000 (- 6)"
    by (simp_all add: round_half_even_def)
  have r3: "dec_round (Dec 1300000 0) 2 = Inr (Dec 130000000 (- 2))"
    by (simp add: dec_round_def digits_count.simps prec_def)
  note w1 = display_formatting [of example_buy example_lib example_platforms example_exchanges
      "PyDec (Dec 1300000 0)" 1300000 "Dec 0 0" "Dec 0 0" 0 TypeError]
  note w2 = display_formatting [of example_usdt example_lib example_platforms example_exchanges
      PyNone 0 "Dec 1300000 0" "Dec 130000000 (- 2)" 0 TypeError]
  note w3 = display_formatting [of example_usdt example_lib integer_platforms example_exchanges
      PyNone 0 "Dec 0 0" "Dec 0 0" 1300000 TypeError]
  note w4 = display_formatting [of example_usdt example_lib huge_platforms bitpin_last
      PyNone 0 "Dec 0 0" "Dec 0 0" huge_int TypeError]
  note w5 = display_formatting [of example_usdt example_lib huge_platforms example_exchanges
      PyNone 0 "Dec 1 309" "Dec 0 0" 0 InvalidOperation]
  from w1 b example_current_price
  have "get_price example_lib example_buy = Inr (DStr ''1,250,000'')
      \<and> get_current_price example_lib example_platforms example_exchanges example_buy
          = Inr (DStr ''1,300,000'')"
    by (simp add: f1 f2)
  moreover from w2 u example_usdt_current_price r3
  have "get_price example_lib example_usdt
          = Inr (DFloat (float_of_dec example_lib (Dec 122 (- 2))))
      \<and> get_current_price example_lib example_platforms example_exchanges example_usdt
          = Inr (DFloat (float_of_dec example_lib (Dec 130000000 (- 2))))
      \<and> get_quantity example_lib example_usdt
          = Inr (float_of_dec example_lib (Dec 2500000 (- 6)))"
    by (simp add: r1 r2 round_half_even_def)
  moreover from w3 u example_usdt_integer_price example_in_range
  have "get_current_price example_lib integer_platforms example_exchanges example_usdt
          = Inr (DFloat (float_of_int example_lib 1300000))"
    by simp
  moreover from w4 u example_usdt_huge_integer_price big
  have "get_current_price example_lib huge_platforms bitpin_last example_usdt
          = Inl OverflowError"
    by simp
  moreover from w5 u example_usdt_huge_decimal_price round_huge_decimal
  have "get_current_price example_lib huge_platforms example_exchanges example_usdt
          = Inl InvalidOperation"
    by simp
  ultimately show ?thesis by simp
qed

section \<open>Saving an Importer\<close>

lemma save_entered_top:
  assumes "\<not> in_atomic_block w"
  shows "save_entered a w =
    w\<lparr>in_atomic_block := True, begin_table := table w,
      run_on_commit := run_on_commit w @ [(map fst (savepoints w), DelayProcessImporter a)]\<rparr>"
  using assms by (simp add: save_entered_def atomic_enter_def on_commit_def)

lemma save_entered_nested:
  assumes "in_atomic_block w"
  shows "save_entered a w =
    w\<lparr>savepoints := (next_sid w, table w) # savepoints w, next_sid := Suc (next_sid w),
      run_on_commit := run_on_commit w
        @ [(next_sid w # map fst (savepoints w), DelayProcessImporter a)]\<rparr>"
  using assms by (simp add: save_entered_def atomic_enter_def on_commit_def)

lemma save_entered_atomic: "in_atomic_block (save_entered a w)"
  by (cases "in_atomic_block w") (simp_all add: save_entered_top save_entered_nested)

lemma save_top_ok:
  assumes "\<not> in_atomic_block w" "savepoints w = []" "run_on_commit w = []"
    and "super_save (heap w a) (table w) = Inr (self', table')"
  shows "Importer_save super_save a w =
    (None, w\<lparr>heap := (heap w)(a := self'), table := table', begin_table := table w,
              broker := broker w @ [ProcessImporter (pk self')]\<rparr>)"
  using assms
  by (simp add: Importer_save_def save_entered_top atomic_exit_def
      run_and_clear_commit_hooks_def)

lemma save_top_fail:
  assumes "\<not> in_atomic_block w" "savepoints w = []" "run_on_commit w = []"
    and "super_save (heap w a) (table w) = Inl e"
  shows "Importer_save super_save a w = (Some e, w\<lparr>begin_table := table w\<rparr>)"
  using assms
  by (simp add: Importer_save_def save_entered_top atomic_exit_def)

lemma save_nested_ok:
  assumes "in_atomic_block w"
    and "super_save (heap w a) (table w) = Inr (self', table')"
  shows "Importer_save super_save a w =
    (None, w\<lparr>heap := (heap w)(a := self'), table := table', next_sid := Suc (next_sid w),
              run_on_commit := run_on_commit w
                @ [(next_sid w # map fst (savepoints w), DelayProcessImporter a)]\<rparr>)"
  using assms
  by (simp add: Importer_save_def save_entered_nested atomic_exit_def)

lemma filter_fresh:
  assumes "\<forall>(sids, f) \<in> set cs. sid \<notin> set sids"
  shows "filter (\<lambda>(sids, f). sid \<notin> set sids) (cs @ [(sid # others, g)]) = cs"
  using assms by (induction cs) auto

lemma save_nested_fail:
  assumes "in_atomic_block w"
    and "\<forall>(sids, f) \<in> set (run_on_commit w). next_sid w \<notin> set sids"
    and "super_save (heap w a) (table w) = Inl e"
  shows "Importer_save super_save a w = (Some e, w\<lparr>next_sid := Suc (next_sid w)\<rparr>)"
  using assms
  by (simp add: Importer_save_def save_entered_nested atomic_exit_def filter_fresh)

text \<open>
  C5. Importer.save calls super().save() inside an atomic block and registers one
  on-commit callback, which sends tasks.process_importer.delay with the primary key the
  importer has when the callback runs. When save opens the transaction itself, a
  successful save commits and the task is sent once; a failing save rolls back and no
  task is sent. Inside an atomic block of the caller the callback waits: it is sent once
  when that block commits, and never when it rolls back. In every case the table is the
  one super().save() produced, or the one before when it raised.
\<close>

theorem importer_save_on_commit:
  "in_atomic_block (save_entered a w)
 \<and> (\<not> in_atomic_block w \<and> savepoints w = [] \<and> run_on_commit w = []
      \<and> super_save (heap w a) (table w) = Inr (self', table') \<longrightarrow>
      fst (Importer_save super_save a w) = None
    \<and> broker (snd (Importer_save super_save a w)) = broker w @ [ProcessImporter (pk self')]
    \<and> table (snd (Importer_save super_save a w)) = table'
    \<and> heap (snd (Importer_save super_save a w)) a = self'
    \<and> run_on_commit (snd (Importer_save super_save a w)) = []
    \<and> \<not> in_atomic_block (snd (Importer_save super_save a w)))
 \<and> (\<not> in_atomic_block w \<and> savepoints w = [] \<and> run_on_commit w = []
      \<and> super_save (heap w a) (table w) = Inl e \<longrightarrow>
      fst (Importer_save super_save a w) = Some e
    \<and> broker (snd (Importer_save super_save a w)) = broker w
    \<and> table (snd (Importer_save super_save a w)) = table w
    \<and> run_on_commit (snd (Importer_save super_save a w)) = [])
 \<and> (in_atomic_block w \<and> super_save (heap w a) (table w) = Inr (self', table') \<longrightarrow>
      fst (Importer_save super_save a w) = None
    \<and> broker (snd (Importer_save super_save a w)) = broker w
    \<and> table (snd (Importer_save super_save a w)) = table'
    \<and> heap (snd (Importer_save super_save a w)) a = self'
    \<and> run_on_commit (snd (Importer_save super_save a w)) =
        run_on_commit w @ [(next_sid w # map fst (savepoints w), DelayProcessImporter a)])
 \<and> (in_atomic_block w \<and> savepoints w = [] \<and> run_on_commit w = []
      \<and> super_save (heap w a) (table w) = Inr (self', table') \<longrightarrow>
      broker (atomic_exit True (snd (Importer_save super_save a w)))
        = broker w @ [ProcessImporter (pk self')]
    \<and> run_on_commit (atomic_exit True (snd (Importer_save super_save a w))) = []
    \<and> broker (atomic_exit False (snd (Importer_save super_save a w))) = broker w
    \<and> run_on_commit (atomic_exit False (snd (Importer_save super_save a w))) = []
    \<and> table (atomic_exit False (snd (Importer_save super_save a w))) = begin_table w)
 \<and> (in_atomic_block w \<and> (\<forall>(sids, f) \<in> set (run_on_commit w). next_sid w \<notin> set sids)
      \<and> super_save (heap w a) (table w) = Inl e \<longrightarrow>
      fst (Importer_save super_save a w) = Some e
    \<and> broker (snd (Importer_save super_save a w)) = broker w
    \<and> table (snd (Importer_save super_save a w)) = table w
    \<and> run_on_commit (snd (Importer_save super_save a w)) = run_on_commit w)"
proof (intro conjI impI)
  show "in_atomic_block (save_entered a w)"
    by (rule save_entered_atomic)
next
  assume "\<not> in_atomic_block w \<and> savepoints w = [] \<and> run_on_commit w = []
      \<and> super_save (heap w a) (table w) = Inr (self', table')"
  then have r: "Importer_save super_save a w =
    (None, w\<lparr>heap := (heap w)(a := self'), table := table', begin_table := table w,
              broker := broker w @ [ProcessImporter (pk self')]\<rparr>)"
    by (simp add: save_top_ok)
  show "fst (Importer_save super_save a w) = None"
    and "broker (snd (Importer_save super_save a w)) = broker w @ [ProcessImporter (pk self')]"
    and "table (snd (Importer_save super_save a w)) = table'"
    and "heap (snd (Importer_save super_save a w)) a = self'"
    by (simp_all add: r)
next
  assume a: "\<not> in_atomic_block w \<and> savepoints w = [] \<and> run_on_commit w = []
      \<and> super_save (heap w a) (table w) = Inr (self', table')"
  then have r: "Importer_save super_save a w =
    (None, w\<lparr>heap := (heap w)(a := self'), table := table', begin_table := table w,
              broker := broker w @ [ProcessImporter (pk self')]\<rparr>)"
    by (simp add: save_top_ok)
  from a show "run_on_commit (snd (Importer_save super_save a w)) = []"
    by (simp add: r)
next
  assume a: "\<not> in_atomic_block w \<and> savepoints w = [] \<and> run_on_commit w = []
      \<and> super_save (heap w a) (table w) = Inr (self', table')"
  then have r: "Importer_save super_save a w =
    (None, w\<lparr>heap := (heap w)(a := self'), table := table', begin_table := table w,
              broker := broker w @ [ProcessImporter (pk self')]\<rparr>)"
    by (simp add: save_top_ok)
  from a show "\<not> in_atomic_block (snd (Importer_save super_save a w))"
    by (simp add: r)
next
  assume a: "\<not> in_atomic_block w \<and> savepoints w = [] \<and> run_on_commit w = []
      \<and> super_save (heap w a) (table w) = Inl e"
  then have r: "Importer_save super_save a w = (Some e, w\<lparr>begin_table := table w\<rparr>)"
    by (simp add: save_top_fail)
  from a show "fst (Importer_save super_save a w) = Some e"
    and "broker (snd (Importer_save super_save a w)) = broker w"
    and "table (snd (Importer_save super_save a w)) = table w"
    and "run_on_commit (snd (Importer_save super_save a w)) = []"
    by (simp_all add: r)
next
  assume "in_atomic_block w \<and> super_save (heap w a) (table w) = Inr (self', table')"
  then have r: "Importer_save super_save a w =
    (None, w\<lparr>heap := (heap w)(a := self'), table := table', next_sid := Suc (next_sid w),
              run_on_commit := run_on_commit w
                @ [(next_sid w # map fst (savepoints w), DelayProcessImporter a)]\<rparr>)"
    by (simp add: save_nested_ok)
  show "fst (Importer_save super_save a w) = None"
    and "broker (snd (Importer_save super_save a w)) = broker w"
    and "table (snd (Importer_save super_save a w)) = table'"
    and "heap (snd (Importer_save super_save a w)) a = self'"
    and "run_on_commit (snd (Importer_save super_save a w)) =
        run_on_commit w @ [(next_sid w # map fst (savepoints w), DelayProcessImporter a)]"
    by (simp_all add: r)
next
  assume a: "in_atomic_block w \<and> savepoints w = [] \<and> run_on_commit w = []
      \<and> super_save (heap w a) (table w) = Inr (self', table')"
  then have r: "Importer_save super_save a w =
    (None, w\<lparr>heap := (heap w)(a := self'), table := table', next_sid := Suc (next_sid w),
              run_on_commit := [([next_sid w], DelayProcessImporter a)]\<rparr>)"
    by (simp add: save_nested_ok)
  from a show "broker (atomic_exit True (snd (Importer_save super_save a w)))
        = broker w @ [ProcessImporter (pk self')]"
    and "run_on_commit (atomic_exit True (snd (Importer_save super_save a w))) = []"
    and "broker (atomic_exit False (snd (Importer_save super_save a w))) = broker w"
    and "run_on_commit (atomic_exit False (snd (Importer_save super_save a w))) = []"
    and "table (atomic_exit False (snd (Importer_save super_save a w))) = begin_table w"
    by (simp_all add: r atomic_exit_def run_and_clear_commit_hooks_def)
next
  assume "in_atomic_block w \<and> (\<forall>(sids, f) \<in> set (run_on_commit w). next_sid w \<notin> set sids)
      \<and> super_save (heap w a) (table w) = Inl e"
  then have r: "Importer_save super_save a w = (Some e, w\<lparr>next_sid := Suc (next_sid w)\<rparr>)"
    by (simp add: save_nested_fail)
  show "fst (Importer_save super_save a w) = Some e"
    and "broker (snd (Importer_save super_save a w)) = broker w"
    and "table (snd (Importer_save super_save a w)) = table w"
    and "run_on_commit (snd (Importer_save super_save a w)) = run_on_commit w"
    by (simp_all add: r)
qed


theorem importer_save_on_commit_witness:
  "fst (Importer_save insert_save 0 idle_world) = None
 \<and> broker (snd (Importer_save insert_save 0 idle_world)) = [ProcessImporter (Some 7)]
 \<and> fst (Importer_save failing_save 0 idle_world) = Some (PyException ''IntegrityError'')
 \<and> broker (snd (Importer_save failing_save 0 idle_world)) = []
 \<and> broker (snd (Importer_save insert_save 0 outer_world)) = []
 \<and> run_on_commit (snd (Importer_save insert_save 0 outer_world))
     = [([0], DelayProcessImporter 0)]
 \<and> broker (atomic_exit True (snd (Importer_save insert_save 0 outer_world)))
     = [ProcessImporter (Some 7)]
 \<and> broker (atomic_exit False (snd (Importer_save insert_save 0 outer_world))) = []
 \<and> fst (Importer_save failing_save 0 outer_world) = Some (PyException ''IntegrityError'')
 \<and> run_on_commit (snd (Importer_save failing_save 0 outer_world)) = []"
proof -
  define saved where "saved = new_importer\<lparr>pk := Some 7\<rparr>"
  have idle: "\<not> in_atomic_block idle_world" "savepoints idle_world = []"
    "run_on_commit idle_world = []" "broker idle_world = []" "next_sid idle_world = 0"
    by (simp_all add: idle_world_def)
  have outer: "in_atomic_block outer_world" "savepoints outer_world = []"
    "run_on_commit outer_world = []" "broker outer_world = []" "next_sid outer_world = 0"
    by (simp_all add: outer_world_def idle_world_def)
  have ok: "insert_save (heap idle_world 0) (table idle_world) = Inr (saved, [7 \<mapsto> saved])"
    "insert_save (heap outer_world 0) (table outer_world) = Inr (saved, [7 \<mapsto> saved])"
    by (simp_all add: insert_save_def saved_def outer_world_def idle_world_def)
  have bad: "failing_save (heap idle_world 0) (table idle_world)
      = Inl (PyException ''IntegrityError'')"
    "failing_save (heap outer_world 0) (table outer_world)
      = Inl (PyException ''IntegrityError'')"
    by (simp_all add: failing_save_def)
  have k: "pk saved = Some 7"
    by (simp add: saved_def)
  note t1 = importer_save_on_commit [of 0 idle_world insert_save saved "[7 \<mapsto> saved]"
      "PyException ''IntegrityError''"]
  note t2 = importer_save_on_commit [of 0 idle_world failing_save saved "[7 \<mapsto> saved]"
      "PyException ''IntegrityError''"]
  note t3 = importer_save_on_commit [of 0 outer_world insert_save saved "[7 \<mapsto> saved]"
      "PyException ''IntegrityError''"]
  note t4 = importer_save_on_commit [of 0 outer_world failing_save saved "[7 \<mapsto> saved]"
      "PyException ''IntegrityError''"]
  from t1 idle ok k
  have "fst (Importer_save insert_save 0 idle_world) = None
      \<and> broker (snd (Importer_save insert_save 0 idle_world)) = [ProcessImporter (Some 7)]"
    by simp
  moreover from t2 idle bad
  have "fst (Importer_save failing_save 0 idle_world) = Some (PyException ''IntegrityError'')
      \<and> broker (snd (Importer_save failing_save 0 idle_world)) = []"
    by simp
  moreover from t3 outer ok k
  have "broker (snd (Importer_save insert_save 0 outer_world)) = []
      \<and> run_on_commit (snd (Importer_save insert_save 0 outer_world))
          = [([0], DelayProcessImporter 0)]
      \<and> broker (atomic_exit True (snd (Importer_save insert_save 0 outer_world)))
          = [ProcessImporter (Some 7)]
      \<and> broker (atomic_exit False (snd (Importer_save insert_save 0 outer_world))) = []"
    by simp
  moreover from t4 outer bad
  have "fst (Importer_save failing_save 0 outer_world) = Some (PyException ''IntegrityError'')
      \<and> run_on_commit (snd (Importer_save failing_save 0 outer_world)) = []"
    by simp
  ultimately show ?thesis by simp
qed

end
